theory Spec2Isabelle
  imports Complex_Main "HOL-Library.Word" "HOL-Library.AList"
begin

unbundle bit_operations_syntax

section \<open>Vulkan interface: handles, results, recorded commands\<close>

text \<open>
  \<^verbatim>\<open>uint32_t\<close> and \<^verbatim>\<open>uint64_t\<close>/\<^verbatim>\<open>size_t\<close> are machine words: arithmetic wraps.
  A Vulkan handle is an opaque identity; \<open>0\<close> is \<^verbatim>\<open>VK_NULL_HANDLE\<close>.
\<close>

type_synonym u32 = "32 word"
type_synonym u64 = "64 word"
type_synonym VkHandle = nat

definition VK_NULL_HANDLE :: VkHandle where
  "VK_NULL_HANDLE = 0"

datatype VkResult =
    VK_SUCCESS
  | VK_NOT_READY
  | VK_TIMEOUT
  | VK_ERROR_OUT_OF_HOST_MEMORY
  | VK_ERROR_OUT_OF_DEVICE_MEMORY
  | VK_ERROR_DEVICE_LOST

text \<open>
  What the host records into a command buffer. A command buffer is the list of the
  commands recorded so far.
\<close>

datatype command =
    CmdBindPipeline VkHandle
  | CmdBindDescriptorSets VkHandle VkHandle
  | CmdPushConstants VkHandle "u32 list"
  | CmdDispatch u32 u32 u32
  | CmdWriteTimestamp VkHandle u32
  | CmdBeginDebugUtilsLabel string
  | CmdEndDebugUtilsLabel
  | CmdInsertDebugUtilsLabel string

text \<open>
  The C++ of this repository fails in two ways: it throws \<^verbatim>\<open>std::runtime_error\<close>, and
  it can index a \<^verbatim>\<open>std::vector\<close> past its end, which is undefined behaviour. The
  model gives the second no meaning: it is the fault \<open>vector_out_of_range index size\<close>.
\<close>

datatype fault =
    runtime_error string
  | vector_out_of_range nat nat

section \<open>VulkanContext: single-use command buffers\<close>

text \<open>
  The answers of the driver to the calls of one \<^verbatim>\<open>update()\<close>. The source reads none of
  them: it calls each function as a statement.
\<close>

record DriverStep =
  rAllocateCommandBuffers :: VkResult
  rBeginCommandBuffer :: VkResult
  rEndCommandBuffer :: VkResult
  rQueueSubmit :: VkResult
  rQueueWaitIdle :: VkResult

record submission =
  subCommands :: "command list"
  subSubmitResult :: VkResult
  subWaitResult :: VkResult

text \<open>
  The part of the device behind the context that the model follows: what each
  descriptor set binding points to (written by \<^verbatim>\<open>vkUpdateDescriptorSets\<close>) and the
  command buffers handed to \<^verbatim>\<open>vkQueueSubmit\<close>, each with the results the driver gave.
\<close>

record VulkanContext =
  descriptorBindings :: "VkHandle \<times> nat \<Rightarrow> VkHandle option"
  submissions :: "submission list"

definition beginSingleTimeCommands :: "DriverStep \<Rightarrow> VulkanContext \<Rightarrow> command list" where
  "beginSingleTimeCommands drv ctx = []"

definition endSingleTimeCommands ::
  "DriverStep \<Rightarrow> command list \<Rightarrow> VulkanContext \<Rightarrow> VulkanContext" where
  "endSingleTimeCommands drv cmdBuffer ctx =
     ctx\<lparr>submissions := submissions ctx @
       [\<lparr>subCommands = cmdBuffer,
         subSubmitResult = rQueueSubmit drv,
         subWaitResult = rQueueWaitIdle drv\<rparr>]\<rparr>"

section \<open>GameOfLife3D\<close>

text \<open>
  The C arrays \<^verbatim>\<open>gridBuffers[2]\<close> and \<^verbatim>\<open>descriptorSets[2]\<close> are functions of the
  index; the source only ever indexes them with 0 and 1.
\<close>

record GameOfLife3D =
  gridSizeX :: u32
  gridSizeY :: u32
  gridSizeZ :: u32
  computePipeline :: VkHandle
  pipelineLayout :: VkHandle
  gridBuffers :: "nat \<Rightarrow> VkHandle"
  currentBuffer :: u32
  descriptorSetLayout :: VkHandle
  descriptorPool :: VkHandle
  descriptorSets :: "nat \<Rightarrow> VkHandle"
  computeShader :: VkHandle
  gridState :: "u32 list"

text \<open>
  The constructor initialises \<^verbatim>\<open>currentBuffer\<close> only; the vector starts empty and every
  other member keeps whatever the memory held (\<open>raw\<close>).
\<close>

definition GameOfLife3D_ctor :: "GameOfLife3D \<Rightarrow> GameOfLife3D" where
  "GameOfLife3D_ctor raw = raw\<lparr>currentBuffer := 0, gridState := []\<rparr>"

text \<open>The answers of the driver and the file system to the calls of \<^verbatim>\<open>init\<close>.\<close>

record DriverInit =
  shaderFileOpens :: bool
  rCreateShaderModule :: "VkResult \<times> VkHandle"
  rCreateDescriptorSetLayout :: "VkResult \<times> VkHandle"
  rCreatePipelineLayout :: "VkResult \<times> VkHandle"
  rCreateComputePipelines :: "VkResult \<times> VkHandle"
  rCreateBuffer :: "nat \<Rightarrow> VkResult \<times> VkHandle"
  rCreateDescriptorPool :: "VkResult \<times> VkHandle"
  rAllocateDescriptorSets :: "nat \<Rightarrow> VkResult \<times> VkHandle"

definition createComputePipeline :: "DriverInit \<Rightarrow> GameOfLife3D \<Rightarrow> fault + GameOfLife3D" where
  "createComputePipeline drv g =
     (if \<not> shaderFileOpens drv then
        Inl (runtime_error ''Failed to open compute shader file'')
      else if fst (rCreateShaderModule drv) \<noteq> VK_SUCCESS then
        Inl (runtime_error ''Failed to create compute shader module'')
      else if fst (rCreateDescriptorSetLayout drv) \<noteq> VK_SUCCESS then
        Inl (runtime_error ''Failed to create descriptor set layout'')
      else if fst (rCreatePipelineLayout drv) \<noteq> VK_SUCCESS then
        Inl (runtime_error ''Failed to create pipeline layout'')
      else if fst (rCreateComputePipelines drv) \<noteq> VK_SUCCESS then
        Inl (runtime_error ''Failed to create compute pipeline'')
      else
        Inr (g\<lparr>computeShader := snd (rCreateShaderModule drv),
               descriptorSetLayout := snd (rCreateDescriptorSetLayout drv),
               pipelineLayout := snd (rCreatePipelineLayout drv),
               computePipeline := snd (rCreateComputePipelines drv)\<rparr>))"

text \<open>\<^verbatim>\<open>for (int i = 0; i < 2; i++)\<close>: the loop over the indices still to do.\<close>

fun createBuffers_loop :: "DriverInit \<Rightarrow> nat list \<Rightarrow> GameOfLife3D \<Rightarrow> fault + GameOfLife3D" where
  "createBuffers_loop drv [] g = Inr g"
| "createBuffers_loop drv (i # is) g =
     (if fst (rCreateBuffer drv i) \<noteq> VK_SUCCESS then
        Inl (runtime_error ''Failed to create grid buffer'')
      else
        createBuffers_loop drv is
          (g\<lparr>gridBuffers := (gridBuffers g)(i := snd (rCreateBuffer drv i))\<rparr>))"

definition createBuffers :: "DriverInit \<Rightarrow> GameOfLife3D \<Rightarrow> fault + GameOfLife3D" where
  "createBuffers drv g = createBuffers_loop drv [0, 1] g"

text \<open>
  One iteration allocates set \<open>i\<close> and writes its two bindings:
  binding 0 is \<^verbatim>\<open>gridBuffers[i]\<close>, binding 1 is \<^verbatim>\<open>gridBuffers[1 - i]\<close>.
\<close>

fun createDescriptorSets_loop ::
  "DriverInit \<Rightarrow> nat list \<Rightarrow> GameOfLife3D \<times> VulkanContext \<Rightarrow> fault + GameOfLife3D \<times> VulkanContext" where
  "createDescriptorSets_loop drv [] s = Inr s"
| "createDescriptorSets_loop drv (i # is) (g, ctx) =
     (if fst (rAllocateDescriptorSets drv i) \<noteq> VK_SUCCESS then
        Inl (runtime_error ''Failed to allocate descriptor set'')
      else
        (let g' = g\<lparr>descriptorSets := (descriptorSets g)(i := snd (rAllocateDescriptorSets drv i))\<rparr>;
             ctx' = ctx\<lparr>descriptorBindings := (descriptorBindings ctx)
                      ((descriptorSets g' i, 0) \<mapsto> gridBuffers g' i,
                       (descriptorSets g' i, 1) \<mapsto> gridBuffers g' (1 - i))\<rparr>
         in createDescriptorSets_loop drv is (g', ctx')))"

definition createDescriptorSets ::
  "DriverInit \<Rightarrow> GameOfLife3D \<times> VulkanContext \<Rightarrow> fault + GameOfLife3D \<times> VulkanContext" where
  "createDescriptorSets drv s =
     (if fst (rCreateDescriptorPool drv) \<noteq> VK_SUCCESS then
        Inl (runtime_error ''Failed to create descriptor pool'')
      else
        createDescriptorSets_loop drv [0, 1]
          ((fst s)\<lparr>descriptorPool := snd (rCreateDescriptorPool drv)\<rparr>, snd s))"

text \<open>\<^verbatim>\<open>std::vector::resize(n, v)\<close>: truncate, or pad with \<open>v\<close>.\<close>

definition resize :: "'a list \<Rightarrow> nat \<Rightarrow> 'a \<Rightarrow> 'a list" where
  "resize xs n v = take n xs @ replicate (n - length xs) v"

text \<open>
  \<^verbatim>\<open>size_t totalCells = gridSizeX * gridSizeY * gridSizeZ\<close>: the three operands are
  \<^verbatim>\<open>uint32_t\<close>, so the product is taken in 32 bits and only then widened.
\<close>

definition init ::
  "DriverInit \<Rightarrow> u32 \<Rightarrow> u32 \<Rightarrow> u32 \<Rightarrow> GameOfLife3D \<times> VulkanContext
     \<Rightarrow> fault + GameOfLife3D \<times> VulkanContext" where
  "init drv sizeX sizeY sizeZ s =
     (let g1 = (fst s)\<lparr>gridSizeX := sizeX, gridSizeY := sizeY, gridSizeZ := sizeZ\<rparr>;
          totalCells = unat (sizeX * sizeY * sizeZ);
          g2 = g1\<lparr>gridState := resize (gridState g1) totalCells 0\<rparr>
      in case createComputePipeline drv g2 of
           Inl e \<Rightarrow> Inl e
         | Inr g3 \<Rightarrow>
             (case createBuffers drv g3 of
                Inl e \<Rightarrow> Inl e
              | Inr g4 \<Rightarrow> createDescriptorSets drv (g4, snd s)))"

definition recordComputeCommands :: "GameOfLife3D \<Rightarrow> command list \<Rightarrow> command list" where
  "recordComputeCommands g cmdBuffer =
     cmdBuffer @
     [CmdBindPipeline (computePipeline g),
      CmdBindDescriptorSets (pipelineLayout g) (descriptorSets g (unat (currentBuffer g))),
      CmdPushConstants (pipelineLayout g) [gridSizeX g, gridSizeY g, gridSizeZ g],
      CmdDispatch ((gridSizeX g + 7) div 8) ((gridSizeY g + 7) div 8) ((gridSizeZ g + 7) div 8)]"

definition swapBuffers :: "GameOfLife3D \<Rightarrow> GameOfLife3D" where
  "swapBuffers g = g\<lparr>currentBuffer := 1 - currentBuffer g\<rparr>"

text \<open>
  \<^verbatim>\<open>update()\<close> has no \<^verbatim>\<open>throw\<close> and no callee that throws: it always returns, and the
  result type has the fault side only so that a step can be asked whether it failed.
\<close>

definition update ::
  "DriverStep \<Rightarrow> GameOfLife3D \<times> VulkanContext \<Rightarrow> fault + GameOfLife3D \<times> VulkanContext" where
  "update drv s =
     (let cmdBuffer = beginSingleTimeCommands drv (snd s);
          cmdBuffer' = recordComputeCommands (fst s) cmdBuffer;
          ctx' = endSingleTimeCommands drv cmdBuffer' (snd s)
      in Inr (swapBuffers (fst s), ctx'))"

text \<open>
  \<^verbatim>\<open>size_t index = x + y * gridSizeX + z * gridSizeX * gridSizeY\<close> is a 32-bit
  expression, widened after it is computed. \<^verbatim>\<open>gridState[index] = state\<close> is unchecked.
\<close>

definition setCell :: "u32 \<Rightarrow> u32 \<Rightarrow> u32 \<Rightarrow> u32 \<Rightarrow> GameOfLife3D \<Rightarrow> fault + GameOfLife3D" where
  "setCell x y z state g =
     (if x \<ge> gridSizeX g \<or> y \<ge> gridSizeY g \<or> z \<ge> gridSizeZ g then Inr g
      else
        (let index = unat (x + y * gridSizeX g + z * gridSizeX g * gridSizeY g)
         in if index < length (gridState g)
            then Inr (g\<lparr>gridState := (gridState g)[index := state]\<rparr>)
            else Inl (vector_out_of_range index (length (gridState g)))))"

definition reset :: "GameOfLife3D \<Rightarrow> GameOfLife3D" where
  "reset g = g\<lparr>gridState := map (\<lambda>_. 0) (gridState g)\<rparr>"

definition getGridState :: "GameOfLife3D \<Rightarrow> u32 list" where
  "getGridState g = gridState g"

text \<open>
  A run of the public interface: the calls a driver such as \<^verbatim>\<open>main.cpp\<close> makes, in
  order, each with the answers of the driver it meets. An exception ends the run.
\<close>

datatype call =
    Init DriverInit u32 u32 u32
  | Update DriverStep
  | SetCell u32 u32 u32 u32
  | Reset

fun call_step ::
  "call \<Rightarrow> GameOfLife3D \<times> VulkanContext \<Rightarrow> fault + GameOfLife3D \<times> VulkanContext" where
  "call_step (Init drv sizeX sizeY sizeZ) s = init drv sizeX sizeY sizeZ s"
| "call_step (Update drv) s = update drv s"
| "call_step (SetCell x y z state) s =
     (case setCell x y z state (fst s) of Inl e \<Rightarrow> Inl e | Inr g \<Rightarrow> Inr (g, snd s))"
| "call_step Reset s = Inr (reset (fst s), snd s)"

fun run ::
  "call list \<Rightarrow> GameOfLife3D \<times> VulkanContext \<Rightarrow> fault + GameOfLife3D \<times> VulkanContext" where
  "run [] s = Inr s"
| "run (c # cs) s = (case call_step c s of Inl e \<Rightarrow> Inl e | Inr s' \<Rightarrow> run cs s')"

fun is_Init :: "call \<Rightarrow> bool" where
  "is_Init (Init drv sizeX sizeY sizeZ) = True"
| "is_Init c = False"

text \<open>Concrete surroundings for the examples: zeroed memory, a driver that never fails.\<close>

definition blank_memory :: GameOfLife3D where
  "blank_memory =
     \<lparr>gridSizeX = 0, gridSizeY = 0, gridSizeZ = 0, computePipeline = 0, pipelineLayout = 0,
      gridBuffers = (\<lambda>i. 0), currentBuffer = 0, descriptorSetLayout = 0, descriptorPool = 0,
      descriptorSets = (\<lambda>i. 0), computeShader = 0, gridState = []\<rparr>"

definition fresh_context :: VulkanContext where
  "fresh_context = \<lparr>descriptorBindings = (\<lambda>k. None), submissions = []\<rparr>"

definition driver_ok :: DriverInit where
  "driver_ok =
     \<lparr>shaderFileOpens = True,
      rCreateShaderModule = (VK_SUCCESS, 1),
      rCreateDescriptorSetLayout = (VK_SUCCESS, 2),
      rCreatePipelineLayout = (VK_SUCCESS, 3),
      rCreateComputePipelines = (VK_SUCCESS, 4),
      rCreateBuffer = (\<lambda>i. (VK_SUCCESS, 10 + i)),
      rCreateDescriptorPool = (VK_SUCCESS, 5),
      rAllocateDescriptorSets = (\<lambda>i. (VK_SUCCESS, 20 + i))\<rparr>"

definition step_ok :: DriverStep where
  "step_ok =
     \<lparr>rAllocateCommandBuffers = VK_SUCCESS, rBeginCommandBuffer = VK_SUCCESS,
      rEndCommandBuffer = VK_SUCCESS, rQueueSubmit = VK_SUCCESS, rQueueWaitIdle = VK_SUCCESS\<rparr>"

definition step_device_lost :: DriverStep where
  "step_device_lost =
     \<lparr>rAllocateCommandBuffers = VK_SUCCESS, rBeginCommandBuffer = VK_SUCCESS,
      rEndCommandBuffer = VK_SUCCESS, rQueueSubmit = VK_ERROR_DEVICE_LOST,
      rQueueWaitIdle = VK_ERROR_DEVICE_LOST\<rparr>"

section \<open>ComputeShaderDebugger\<close>

text \<open>
  Time points of \<^verbatim>\<open>std::chrono::steady_clock\<close> are tick counts (nanoseconds), read from
  the clock by the caller of the model and passed in as \<open>now\<close>.

  A \<^verbatim>\<open>double\<close> is a real number, or the non-finite result of a division by zero:
  rounding is not modelled, division by zero is.
\<close>

datatype double = Finite real | NotFinite

fun double_add :: "double \<Rightarrow> double \<Rightarrow> double" where
  "double_add (Finite a) (Finite b) = Finite (a + b)"
| "double_add a b = NotFinite"

fun double_div :: "double \<Rightarrow> double \<Rightarrow> double" where
  "double_div (Finite a) (Finite b) = (if b = 0 then NotFinite else Finite (a / b))"
| "double_div a b = NotFinite"

record ComputeDispatchInfo =
  groupCountX :: u32
  groupCountY :: u32
  groupCountZ :: u32
  shaderName :: string
  startTime :: int
  endTime :: int
  buffers :: "VkHandle list"
  images :: "VkHandle list"

record VkExtent3D =
  width :: u32
  height :: u32
  depth :: u32

record BufferInfo =
  size_buf :: u64
  name_buf :: string
  lastAccessTime_buf :: u64

record ImageInfo =
  extent :: VkExtent3D
  format :: nat
  name_img :: string
  lastAccessTime_img :: u64

record VkMemoryBarrier =
  srcAccessMask :: u32
  dstAccessMask :: u32

record VkBufferMemoryBarrier =
  srcAccessMask_buf :: u32
  dstAccessMask_buf :: u32
  buffer :: VkHandle
  offset_buf :: u64
  size_barrier :: u64

record VkImageMemoryBarrier =
  srcAccessMask_img :: u32
  dstAccessMask_img :: u32
  image :: VkHandle

text \<open>
  The two \<^verbatim>\<open>std::unordered_map\<close>s are association lists with one entry per key:
  \<^verbatim>\<open>m[k] = v\<close> is \<^const>\<open>AList.update\<close>, \<^verbatim>\<open>m.erase(k)\<close> is \<^const>\<open>AList.delete\<close>. The
  three extension function pointers are \<open>True\<close> when they are not null.
\<close>

record ComputeShaderDebugger =
  m_enabled :: bool
  m_trackedBuffers :: "(VkHandle \<times> BufferInfo) list"
  m_trackedImages :: "(VkHandle \<times> ImageInfo) list"
  m_dispatchHistory :: "ComputeDispatchInfo list"
  m_currentDispatch :: ComputeDispatchInfo
  m_inDispatch :: bool
  m_timestampQueryPool :: VkHandle
  m_currentTimestampIndex :: u32
  m_timestampMarkers :: "(u32 \<times> string) list"
  m_errors :: "string list"
  m_warnings :: "string list"
  vkCmdBeginDebugUtilsLabelEXT :: bool
  vkCmdEndDebugUtilsLabelEXT :: bool
  vkCmdInsertDebugUtilsLabelEXT :: bool

record DriverDebug =
  procBeginDebugUtilsLabel :: bool
  procEndDebugUtilsLabel :: bool
  procInsertDebugUtilsLabel :: bool
  rCreateQueryPool :: "VkResult \<times> VkHandle"

definition initDebugExtensions :: "DriverDebug \<Rightarrow> ComputeShaderDebugger \<Rightarrow> ComputeShaderDebugger" where
  "initDebugExtensions drv d =
     d\<lparr>vkCmdBeginDebugUtilsLabelEXT := procBeginDebugUtilsLabel drv,
       vkCmdEndDebugUtilsLabelEXT := procEndDebugUtilsLabel drv,
       vkCmdInsertDebugUtilsLabelEXT := procInsertDebugUtilsLabel drv\<rparr>"

definition createTimestampQueryPool :: "DriverDebug \<Rightarrow> ComputeShaderDebugger \<Rightarrow> ComputeShaderDebugger" where
  "createTimestampQueryPool drv d =
     (if fst (rCreateQueryPool drv) \<noteq> VK_SUCCESS
      then d\<lparr>m_errors := m_errors d @ [''Failed to create timestamp query pool'']\<rparr>
      else d\<lparr>m_timestampQueryPool := snd (rCreateQueryPool drv)\<rparr>)"

text \<open>
  The constructor. \<^verbatim>\<open>m_currentDispatch\<close> is default-initialised: its string and vectors
  are empty, its time points are the epoch, its three group counts are whatever the
  memory held (\<open>raw\<close>).
\<close>

definition ComputeShaderDebugger_ctor :: "DriverDebug \<Rightarrow> ComputeDispatchInfo \<Rightarrow> ComputeShaderDebugger" where
  "ComputeShaderDebugger_ctor drv raw =
     createTimestampQueryPool drv (initDebugExtensions drv
       \<lparr>m_enabled = True,
        m_trackedBuffers = [],
        m_trackedImages = [],
        m_dispatchHistory = [],
        m_currentDispatch = raw\<lparr>shaderName := [], startTime := 0, endTime := 0,
                                  buffers := [], images := []\<rparr>,
        m_inDispatch = False,
        m_timestampQueryPool = VK_NULL_HANDLE,
        m_currentTimestampIndex = 0,
        m_timestampMarkers = [],
        m_errors = [],
        m_warnings = [],
        vkCmdBeginDebugUtilsLabelEXT = False,
        vkCmdEndDebugUtilsLabelEXT = False,
        vkCmdInsertDebugUtilsLabelEXT = False\<rparr>)"

definition setEnabled :: "bool \<Rightarrow> ComputeShaderDebugger \<Rightarrow> ComputeShaderDebugger" where
  "setEnabled enabled d = d\<lparr>m_enabled := enabled\<rparr>"

definition isEnabled :: "ComputeShaderDebugger \<Rightarrow> bool" where
  "isEnabled d = m_enabled d"

definition validateShaderModule ::
  "VkHandle \<Rightarrow> string \<Rightarrow> ComputeShaderDebugger \<Rightarrow> bool \<times> ComputeShaderDebugger" where
  "validateShaderModule shaderModule name d =
     (if \<not> m_enabled d then (True, d)
      else if shaderModule = VK_NULL_HANDLE then
        (False, d\<lparr>m_errors := m_errors d @
           [''Shader module '' @ [CHR 0x27] @ name @ [CHR 0x27] @ '' is VK_NULL_HANDLE'']\<rparr>)
      else (True, d))"

definition validateComputePipeline ::
  "VkHandle \<Rightarrow> string \<Rightarrow> ComputeShaderDebugger \<Rightarrow> bool \<times> ComputeShaderDebugger" where
  "validateComputePipeline pipeline name d =
     (if \<not> m_enabled d then (True, d)
      else if pipeline = VK_NULL_HANDLE then
        (False, d\<lparr>m_errors := m_errors d @
           [''Compute pipeline '' @ [CHR 0x27] @ name @ [CHR 0x27] @ '' is VK_NULL_HANDLE'']\<rparr>)
      else (True, d))"

definition trackBuffer ::
  "VkHandle \<Rightarrow> u64 \<Rightarrow> string \<Rightarrow> int \<Rightarrow> ComputeShaderDebugger \<Rightarrow> ComputeShaderDebugger" where
  "trackBuffer buf sz name now d =
     (if \<not> m_enabled d then d
      else d\<lparr>m_trackedBuffers :=
               AList.update buf
                 \<lparr>size_buf = sz, name_buf = name, lastAccessTime_buf = of_int now\<rparr>
                 (m_trackedBuffers d)\<rparr>)"

definition trackImage ::
  "VkHandle \<Rightarrow> VkExtent3D \<Rightarrow> nat \<Rightarrow> string \<Rightarrow> int \<Rightarrow> ComputeShaderDebugger \<Rightarrow> ComputeShaderDebugger" where
  "trackImage img ext fmt name now d =
     (if \<not> m_enabled d then d
      else d\<lparr>m_trackedImages :=
               AList.update img
                 \<lparr>extent = ext, format = fmt, name_img = name, lastAccessTime_img = of_int now\<rparr>
                 (m_trackedImages d)\<rparr>)"

definition untrackBuffer :: "VkHandle \<Rightarrow> ComputeShaderDebugger \<Rightarrow> ComputeShaderDebugger" where
  "untrackBuffer buf d = d\<lparr>m_trackedBuffers := AList.delete buf (m_trackedBuffers d)\<rparr>"

definition untrackImage :: "VkHandle \<Rightarrow> ComputeShaderDebugger \<Rightarrow> ComputeShaderDebugger" where
  "untrackImage img d = d\<lparr>m_trackedImages := AList.delete img (m_trackedImages d)\<rparr>"

definition beginDispatch ::
  "string \<Rightarrow> u32 \<Rightarrow> u32 \<Rightarrow> u32 \<Rightarrow> int \<Rightarrow> ComputeShaderDebugger \<Rightarrow> ComputeShaderDebugger" where
  "beginDispatch name gx gy gz now d =
     (if \<not> m_enabled d then d
      else d\<lparr>m_currentDispatch :=
               (m_currentDispatch d)\<lparr>shaderName := name, groupCountX := gx, groupCountY := gy,
                  groupCountZ := gz, startTime := now, buffers := [], images := []\<rparr>,
             m_inDispatch := True\<rparr>)"

text \<open>\<^verbatim>\<open>m_dispatchHistory.erase(m_dispatchHistory.begin())\<close> drops the head.\<close>

definition endDispatch :: "int \<Rightarrow> ComputeShaderDebugger \<Rightarrow> ComputeShaderDebugger" where
  "endDispatch now d =
     (if \<not> m_enabled d \<or> \<not> m_inDispatch d then d
      else
        (let cur = (m_currentDispatch d)\<lparr>endTime := now\<rparr>;
             pushed = m_dispatchHistory d @ [cur]
         in d\<lparr>m_currentDispatch := cur,
               m_dispatchHistory := (if length pushed > 1000 then tl pushed else pushed),
               m_inDispatch := False\<rparr>))"

definition insertTimestamp ::
  "command list \<Rightarrow> string \<Rightarrow> ComputeShaderDebugger \<Rightarrow> command list \<times> ComputeShaderDebugger" where
  "insertTimestamp commandBuffer markerName d =
     (if \<not> m_enabled d \<or> m_currentTimestampIndex d \<ge> 1000 then (commandBuffer, d)
      else
        (commandBuffer @ [CmdWriteTimestamp (m_timestampQueryPool d) (m_currentTimestampIndex d)],
         d\<lparr>m_timestampMarkers := m_timestampMarkers d @ [(m_currentTimestampIndex d, markerName)],
           m_currentTimestampIndex := m_currentTimestampIndex d + 1\<rparr>))"

text \<open>The debug labels reach the command buffer only; the colour is passed through.\<close>

definition beginDebugLabel ::
  "command list \<Rightarrow> string \<Rightarrow> ComputeShaderDebugger \<Rightarrow> command list \<times> ComputeShaderDebugger" where
  "beginDebugLabel commandBuffer labelName d =
     (if \<not> m_enabled d \<or> \<not> vkCmdBeginDebugUtilsLabelEXT d then (commandBuffer, d)
      else (commandBuffer @ [CmdBeginDebugUtilsLabel labelName], d))"

definition endDebugLabel ::
  "command list \<Rightarrow> ComputeShaderDebugger \<Rightarrow> command list \<times> ComputeShaderDebugger" where
  "endDebugLabel commandBuffer d =
     (if \<not> m_enabled d \<or> \<not> vkCmdEndDebugUtilsLabelEXT d then (commandBuffer, d)
      else (commandBuffer @ [CmdEndDebugUtilsLabel], d))"

definition insertDebugLabel ::
  "command list \<Rightarrow> string \<Rightarrow> ComputeShaderDebugger \<Rightarrow> command list \<times> ComputeShaderDebugger" where
  "insertDebugLabel commandBuffer labelName d =
     (if \<not> m_enabled d \<or> \<not> vkCmdInsertDebugUtilsLabelEXT d then (commandBuffer, d)
      else (commandBuffer @ [CmdInsertDebugUtilsLabel labelName], d))"

definition validateMemoryBarrier ::
  "VkMemoryBarrier \<Rightarrow> ComputeShaderDebugger \<Rightarrow> bool \<times> ComputeShaderDebugger" where
  "validateMemoryBarrier barrier d =
     (if \<not> m_enabled d then (True, d)
      else if srcAccessMask barrier = 0 \<and> dstAccessMask barrier = 0 then
        (True, d\<lparr>m_warnings := m_warnings d @
           [''Memory barrier has both srcAccessMask and dstAccessMask set to 0'']\<rparr>)
      else (True, d))"

definition validateBufferMemoryBarrier ::
  "VkBufferMemoryBarrier \<Rightarrow> ComputeShaderDebugger \<Rightarrow> bool \<times> ComputeShaderDebugger" where
  "validateBufferMemoryBarrier barrier d =
     (if \<not> m_enabled d then (True, d)
      else if buffer barrier = VK_NULL_HANDLE then
        (False, d\<lparr>m_errors := m_errors d @
           [''Buffer memory barrier has VK_NULL_HANDLE buffer'']\<rparr>)
      else if size_barrier barrier = 0 then
        (True, d\<lparr>m_warnings := m_warnings d @ [''Buffer memory barrier has size of 0'']\<rparr>)
      else (True, d))"

definition validateImageMemoryBarrier ::
  "VkImageMemoryBarrier \<Rightarrow> ComputeShaderDebugger \<Rightarrow> bool \<times> ComputeShaderDebugger" where
  "validateImageMemoryBarrier barrier d =
     (if \<not> m_enabled d then (True, d)
      else if image barrier = VK_NULL_HANDLE then
        (False, d\<lparr>m_errors := m_errors d @
           [''Image memory barrier has VK_NULL_HANDLE image'']\<rparr>)
      else (True, d))"

text \<open>\<^verbatim>\<open>VK_ACCESS_SHADER_WRITE_BIT\<close>, from the Vulkan headers.\<close>

definition VK_ACCESS_SHADER_WRITE_BIT :: u32 where
  "VK_ACCESS_SHADER_WRITE_BIT = 0x40"

definition checkSynchronizationHazards ::
  "u32 \<Rightarrow> u32 \<Rightarrow> u32 \<Rightarrow> u32 \<Rightarrow> ComputeShaderDebugger \<Rightarrow> ComputeShaderDebugger" where
  "checkSynchronizationHazards srcStage dstStage srcAccess dstAccess d =
     (if \<not> m_enabled d then d
      else
        (let d1 = (if (srcAccess AND VK_ACCESS_SHADER_WRITE_BIT) \<noteq> 0 \<and>
                      (dstAccess AND VK_ACCESS_SHADER_WRITE_BIT) \<noteq> 0
                   then d\<lparr>m_warnings := m_warnings d @
                          [''Potential write-after-write hazard detected'']\<rparr>
                   else d)
         in if srcStage = 0 \<or> dstStage = 0
            then d1\<lparr>m_errors := m_errors d1 @ [''Pipeline barrier has invalid stage flags'']\<rparr>
            else d1))"

definition getErrors :: "ComputeShaderDebugger \<Rightarrow> string list" where
  "getErrors d = m_errors d"

definition getWarnings :: "ComputeShaderDebugger \<Rightarrow> string list" where
  "getWarnings d = m_warnings d"

definition clearMessages :: "ComputeShaderDebugger \<Rightarrow> ComputeShaderDebugger" where
  "clearMessages d = d\<lparr>m_errors := [], m_warnings := []\<rparr>"

subsection \<open>Statistics\<close>

record DebugStatistics =
  totalDispatches :: u64
  totalBufferBytes :: u64
  totalImagePixels :: u64
  averageDispatchTimeMs :: double
  dispatchCounts :: "(string \<times> u64) list"
  shaderTimings :: "(string \<times> double) list"

text \<open>
  \<^verbatim>\<open>duration_cast<microseconds>(endTime - startTime).count() / 1000.0\<close>: the cast
  truncates towards zero, the division is a division of doubles.
\<close>

definition duration_ms :: "ComputeDispatchInfo \<Rightarrow> double" where
  "duration_ms dispatch =
     (let ticks = endTime dispatch - startTime dispatch;
          micros = (if ticks < 0 then - ((- ticks) div 1000) else ticks div 1000)
      in double_div (Finite (real_of_int micros)) (Finite 1000))"

text \<open>\<^verbatim>\<open>m[k]\<close> on a missing key inserts the value-initialised entry first.\<close>

definition count_at :: "(string \<times> u64) list \<Rightarrow> string \<Rightarrow> u64" where
  "count_at m k = (case map_of m k of None \<Rightarrow> 0 | Some c \<Rightarrow> c)"

definition timing_at :: "(string \<times> double) list \<Rightarrow> string \<Rightarrow> double" where
  "timing_at m k = (case map_of m k of None \<Rightarrow> Finite 0 | Some t \<Rightarrow> t)"

definition account_dispatch ::
  "ComputeDispatchInfo \<Rightarrow> double \<times> DebugStatistics \<Rightarrow> double \<times> DebugStatistics" where
  "account_dispatch dispatch acc =
     (let duration = duration_ms dispatch;
          stats = snd acc
      in (double_add (fst acc) duration,
          stats\<lparr>dispatchCounts :=
                  AList.update (shaderName dispatch)
                    (count_at (dispatchCounts stats) (shaderName dispatch) + 1)
                    (dispatchCounts stats),
                shaderTimings :=
                  AList.update (shaderName dispatch)
                    (double_add (timing_at (shaderTimings stats) (shaderName dispatch)) duration)
                    (shaderTimings stats)\<rparr>))"

text \<open>
  The bodies of the two loops over the tracked resources.
  \<^verbatim>\<open>info.extent.width * info.extent.height * info.extent.depth\<close> is a 32-bit product,
  widened when it is added to the 64-bit total.
\<close>

definition add_buffer_bytes :: "VkHandle \<times> BufferInfo \<Rightarrow> DebugStatistics \<Rightarrow> DebugStatistics" where
  "add_buffer_bytes entry stats =
     stats\<lparr>totalBufferBytes := totalBufferBytes stats + size_buf (snd entry)\<rparr>"

definition add_image_pixels :: "VkHandle \<times> ImageInfo \<Rightarrow> DebugStatistics \<Rightarrow> DebugStatistics" where
  "add_image_pixels entry stats =
     stats\<lparr>totalImagePixels := totalImagePixels stats +
       ucast (width (extent (snd entry)) * height (extent (snd entry))
              * depth (extent (snd entry)))\<rparr>"

text \<open>
  \<^verbatim>\<open>DebugStatistics stats{}\<close> starts from zeros and empty maps. The average is divided
  out only under \<^verbatim>\<open>if (!m_dispatchHistory.empty())\<close>.
\<close>

definition getStatistics :: "ComputeShaderDebugger \<Rightarrow> DebugStatistics" where
  "getStatistics d =
     (let stats0 = \<lparr>totalDispatches = 0, totalBufferBytes = 0, totalImagePixels = 0,
                    averageDispatchTimeMs = Finite 0,
                    dispatchCounts = [], shaderTimings = []\<rparr>;
          stats1 = stats0\<lparr>totalDispatches := of_nat (length (m_dispatchHistory d))\<rparr>;
          stats2 = fold add_buffer_bytes (m_trackedBuffers d) stats1;
          stats3 = fold add_image_pixels (m_trackedImages d) stats2
      in if m_dispatchHistory d \<noteq> [] then
           (let acc = fold account_dispatch (m_dispatchHistory d) (Finite 0, stats3)
            in (snd acc)\<lparr>averageDispatchTimeMs :=
                  double_div (fst acc) (Finite (real (length (m_dispatchHistory d))))\<rparr>)
         else stats3)"

subsection \<open>Runs of the debugger's interface\<close>

datatype debug_call =
    SetEnabled bool
  | ValidateShaderModule VkHandle string
  | ValidateComputePipeline VkHandle string
  | TrackBuffer VkHandle u64 string int
  | TrackImage VkHandle VkExtent3D nat string int
  | UntrackBuffer VkHandle
  | UntrackImage VkHandle
  | BeginDispatch string u32 u32 u32 int
  | EndDispatch int
  | InsertTimestamp "command list" string
  | ValidateMemoryBarrier VkMemoryBarrier
  | ValidateBufferMemoryBarrier VkBufferMemoryBarrier
  | ValidateImageMemoryBarrier VkImageMemoryBarrier
  | CheckSynchronizationHazards u32 u32 u32 u32
  | ClearMessages

fun debug_step :: "debug_call \<Rightarrow> ComputeShaderDebugger \<Rightarrow> ComputeShaderDebugger" where
  "debug_step (SetEnabled enabled) d = setEnabled enabled d"
| "debug_step (ValidateShaderModule h name) d = snd (validateShaderModule h name d)"
| "debug_step (ValidateComputePipeline h name) d = snd (validateComputePipeline h name d)"
| "debug_step (TrackBuffer buf sz name now) d = trackBuffer buf sz name now d"
| "debug_step (TrackImage img ext fmt name now) d = trackImage img ext fmt name now d"
| "debug_step (UntrackBuffer buf) d = untrackBuffer buf d"
| "debug_step (UntrackImage img) d = untrackImage img d"
| "debug_step (BeginDispatch name gx gy gz now) d = beginDispatch name gx gy gz now d"
| "debug_step (EndDispatch now) d = endDispatch now d"
| "debug_step (InsertTimestamp commandBuffer markerName) d =
     snd (insertTimestamp commandBuffer markerName d)"
| "debug_step (ValidateMemoryBarrier barrier) d = snd (validateMemoryBarrier barrier d)"
| "debug_step (ValidateBufferMemoryBarrier barrier) d = snd (validateBufferMemoryBarrier barrier d)"
| "debug_step (ValidateImageMemoryBarrier barrier) d = snd (validateImageMemoryBarrier barrier d)"
| "debug_step (CheckSynchronizationHazards srcStage dstStage srcAccess dstAccess) d =
     checkSynchronizationHazards srcStage dstStage srcAccess dstAccess d"
| "debug_step ClearMessages d = clearMessages d"

fun debug_run :: "debug_call list \<Rightarrow> ComputeShaderDebugger \<Rightarrow> ComputeShaderDebugger" where
  "debug_run [] d = d"
| "debug_run (c # cs) d = debug_run cs (debug_step c d)"

definition debug_driver_ok :: DriverDebug where
  "debug_driver_ok =
     \<lparr>procBeginDebugUtilsLabel = True, procEndDebugUtilsLabel = True,
      procInsertDebugUtilsLabel = True, rCreateQueryPool = (VK_SUCCESS, 30)\<rparr>"

definition blank_dispatch :: ComputeDispatchInfo where
  "blank_dispatch =
     \<lparr>groupCountX = 0, groupCountY = 0, groupCountZ = 0, shaderName = [],
      startTime = 0, endTime = 0, buffers = [], images = []\<rparr>"

definition null_buffer_barrier :: VkBufferMemoryBarrier where
  "null_buffer_barrier =
     \<lparr>srcAccessMask_buf = 0x40, dstAccessMask_buf = 0x20, buffer = VK_NULL_HANDLE,
      offset_buf = 0, size_barrier = 0\<rparr>"

definition empty_buffer_barrier :: VkBufferMemoryBarrier where
  "empty_buffer_barrier =
     \<lparr>srcAccessMask_buf = 0x40, dstAccessMask_buf = 0x20, buffer = 11,
      offset_buf = 0, size_barrier = 0\<rparr>"

definition empty_memory_barrier :: VkMemoryBarrier where
  "empty_memory_barrier = \<lparr>srcAccessMask = 0, dstAccessMask = 0\<rparr>"

text \<open>\<open>n\<close> dispatches of one shader, each begun at tick 0 and ended at tick 1000.\<close>

definition dispatches :: "nat \<Rightarrow> string \<Rightarrow> debug_call list" where
  "dispatches n name = concat (replicate n [BeginDispatch name 1 1 1 0, EndDispatch 1000])"

definition dispatch_record :: "string \<Rightarrow> ComputeDispatchInfo" where
  "dispatch_record name =
     \<lparr>groupCountX = 1, groupCountY = 1, groupCountZ = 1, shaderName = name,
      startTime = 0, endTime = 1000, buffers = [], images = []\<rparr>"

text \<open>
  A debugger whose history is full and whose next dispatch is open: one dispatch of
  \<open>first\<close>, 999 of \<open>life\<close>, then \<^verbatim>\<open>beginDispatch("last", ...)\<close>.
\<close>

definition full_debugger :: ComputeShaderDebugger where
  "full_debugger =
     debug_run (dispatches 1 ''first'' @ dispatches 999 ''life'' @ [BeginDispatch ''last'' 1 1 1 0])
       (ComputeShaderDebugger_ctor debug_driver_ok blank_dispatch)"

text \<open>A debugger that tracks two buffers, of 1024 and 2048 bytes, and has no history.\<close>

definition tracking_debugger :: ComputeShaderDebugger where
  "tracking_debugger =
     debug_run [TrackBuffer 7 1024 ''current'' 0, TrackBuffer 8 2048 ''next'' 0]
       (ComputeShaderDebugger_ctor debug_driver_ok blank_dispatch)"

section \<open>GameOfLife3D: what initialisation establishes\<close>

lemma createComputePipeline_frame:
  "createComputePipeline drv g = Inr g' \<Longrightarrow>
   currentBuffer g' = currentBuffer g \<and> gridState g' = gridState g \<and>
   gridSizeX g' = gridSizeX g \<and> gridSizeY g' = gridSizeY g \<and> gridSizeZ g' = gridSizeZ g"
  by (auto simp: createComputePipeline_def split: if_splits)

lemma createBuffers_loop_frame:
  "createBuffers_loop drv is g = Inr g' \<Longrightarrow>
   currentBuffer g' = currentBuffer g \<and> gridState g' = gridState g \<and>
   gridSizeX g' = gridSizeX g \<and> gridSizeY g' = gridSizeY g \<and> gridSizeZ g' = gridSizeZ g"
  by (induction "is" arbitrary: g) (auto split: if_splits)

lemma createDescriptorSets_loop_frame:
  "createDescriptorSets_loop drv is s = Inr s' \<Longrightarrow>
   currentBuffer (fst s') = currentBuffer (fst s) \<and> gridState (fst s') = gridState (fst s) \<and>
   gridSizeX (fst s') = gridSizeX (fst s) \<and> gridSizeY (fst s') = gridSizeY (fst s) \<and>
   gridSizeZ (fst s') = gridSizeZ (fst s) \<and> gridBuffers (fst s') = gridBuffers (fst s)"
proof (induction "is" arbitrary: s)
  case Nil
  then show ?case by simp
next
  case (Cons i "is")
  obtain g ctx where s: "s = (g, ctx)" by (cases s)
  from Cons.prems s show ?case
    by (auto simp: Let_def split: if_splits dest!: Cons.IH)
qed

lemma init_frame:
  assumes "init drv sizeX sizeY sizeZ s = Inr s'"
  shows "currentBuffer (fst s') = currentBuffer (fst s)"
    and "gridSizeX (fst s') = sizeX" and "gridSizeY (fst s') = sizeY" and "gridSizeZ (fst s') = sizeZ"
    and "gridState (fst s') = resize (gridState (fst s)) (unat (sizeX * sizeY * sizeZ)) 0"
  using assms
  by (auto simp: init_def Let_def createBuffers_def createDescriptorSets_def
      split: sum.splits if_splits
      dest!: createComputePipeline_frame createBuffers_loop_frame createDescriptorSets_loop_frame)

section \<open>GameOfLife3D: the step and the buffer index\<close>

lemma update_Inr:
  "update drv s =
     Inr (swapBuffers (fst s),
          endSingleTimeCommands drv (recordComputeCommands (fst s) []) (snd s))"
  by (simp add: update_def Let_def beginSingleTimeCommands_def)

lemma swapBuffers_parity:
  assumes "unat (currentBuffer g) = n mod 2"
  shows "unat (currentBuffer (swapBuffers g)) = Suc n mod 2"
proof (cases "n mod 2 = 0")
  case True
  with assms have "currentBuffer g = 0" by (simp add: unat_eq_0)
  with True show ?thesis by (simp add: swapBuffers_def mod_Suc)
next
  case False
  then have one: "n mod 2 = 1" by arith
  with assms have "currentBuffer g = 1" by (simp add: word_unat_eq_iff)
  with one show ?thesis by (simp add: swapBuffers_def mod_Suc)
qed

lemma run_updates_parity:
  "unat (currentBuffer (fst s)) = k mod 2 \<Longrightarrow>
   \<exists>s'. run (map Update drvs) s = Inr s' \<and>
        unat (currentBuffer (fst s')) = (k + length drvs) mod 2"
proof (induction drvs arbitrary: s k)
  case Nil
  then show ?case by simp
next
  case (Cons drv drvs)
  let ?s1 = "(swapBuffers (fst s),
              endSingleTimeCommands drv (recordComputeCommands (fst s) []) (snd s))"
  have "unat (currentBuffer (fst ?s1)) = Suc k mod 2"
    using Cons.prems by (simp add: swapBuffers_parity)
  from Cons.IH [OF this] show ?case
    by (simp add: update_Inr)
qed

lemma init_ok_444:
  "\<exists>s. init driver_ok 4 4 4 (GameOfLife3D_ctor blank_memory, fresh_context) = Inr s"
  by (simp add: init_def driver_ok_def createComputePipeline_def createBuffers_def
      createDescriptorSets_def Let_def)

text \<open>
  C5. Construct the engine, initialise it, call \<^verbatim>\<open>update()\<close> \<open>n\<close> times, whatever the
  driver answers each time: every call returns, and afterwards \<^verbatim>\<open>currentBuffer\<close> is
  \<open>n mod 2\<close>, one of 0 and 1.
\<close>

theorem step_count_parity:
  assumes "init drv sizeX sizeY sizeZ (GameOfLife3D_ctor raw, ctx) = Inr s"
  shows "\<exists>s'. run (map Update drvs) s = Inr s' \<and>
           unat (currentBuffer (fst s')) = length drvs mod 2 \<and>
           currentBuffer (fst s') \<in> {0, 1}"
proof -
  have "currentBuffer (fst s) = 0"
    using init_frame(1) [OF assms] by (simp add: GameOfLife3D_ctor_def)
  then have "unat (currentBuffer (fst s)) = 0 mod 2" by simp
  from run_updates_parity [OF this, of drvs]
  obtain s' where r: "run (map Update drvs) s = Inr s'"
    and p: "unat (currentBuffer (fst s')) = length drvs mod 2" by auto
  have "length drvs mod 2 = 0 \<or> length drvs mod 2 = 1" by arith
  with p have "currentBuffer (fst s') = 0 \<or> currentBuffer (fst s') = 1"
    by (auto simp: word_unat_eq_iff)
  with r p show ?thesis by auto
qed

theorem step_count_parity_witness:
  "\<exists>s. init driver_ok 4 4 4 (GameOfLife3D_ctor blank_memory, fresh_context) = Inr s \<and>
       (\<exists>s'. run (map Update [step_ok, step_device_lost, step_ok]) s = Inr s' \<and>
             unat (currentBuffer (fst s')) = 1 \<and> currentBuffer (fst s') \<in> {0, 1})"
proof -
  obtain s where s: "init driver_ok 4 4 4 (GameOfLife3D_ctor blank_memory, fresh_context) = Inr s"
    using init_ok_444 by blast
  from step_count_parity [OF s, of "[step_ok, step_device_lost, step_ok]"]
  have "\<exists>s'. run (map Update [step_ok, step_device_lost, step_ok]) s = Inr s' \<and>
             unat (currentBuffer (fst s')) = 1 \<and> currentBuffer (fst s') \<in> {0, 1}"
    by simp
  with s show ?thesis by blast
qed

text \<open>
  C2 (as the code has it). \<^verbatim>\<open>update()\<close> has no failure path: whatever the driver answers
  to the submission and to the wait, the call returns normally, the index is flipped, and
  the two results are merely what the driver gave (the model logs them; the source drops
  them).
\<close>

theorem update_never_reports_failure:
  "\<exists>s'. update drv s = Inr s' \<and>
        currentBuffer (fst s') = 1 - currentBuffer (fst s) \<and>
        submissions (snd s') = submissions (snd s) @
          [\<lparr>subCommands = recordComputeCommands (fst s) [],
            subSubmitResult = rQueueSubmit drv, subWaitResult = rQueueWaitIdle drv\<rparr>]"
  by (simp add: update_Inr swapBuffers_def endSingleTimeCommands_def)

text \<open>
  C2 as stated fails: the driver reports \<^verbatim>\<open>VK_ERROR_DEVICE_LOST\<close> for the submission and
  the wait of the first step after initialisation; the step returns normally and the
  index goes from 0 to 1.
\<close>

theorem failed_step_still_flips:
  "rQueueSubmit step_device_lost = VK_ERROR_DEVICE_LOST \<and>
   rQueueWaitIdle step_device_lost = VK_ERROR_DEVICE_LOST \<and>
   map_sum id (currentBuffer \<circ> fst)
     (run [Init driver_ok 4 4 4] (GameOfLife3D_ctor blank_memory, fresh_context)) = Inr 0 \<and>
   map_sum id (currentBuffer \<circ> fst)
     (run [Init driver_ok 4 4 4, Update step_device_lost]
        (GameOfLife3D_ctor blank_memory, fresh_context)) = Inr 1"
  by (simp add: step_device_lost_def init_def driver_ok_def createComputePipeline_def
      createBuffers_def createDescriptorSets_def Let_def update_Inr swapBuffers_def
      GameOfLife3D_ctor_def blank_memory_def)

section \<open>GameOfLife3D: the descriptor sets\<close>

lemma createDescriptorSets_wiring:
  assumes ok: "createDescriptorSets drv (g, ctx) = Inr (g', ctx')"
    and distinct: "snd (rAllocateDescriptorSets drv 0) \<noteq> snd (rAllocateDescriptorSets drv 1)"
  shows "gridBuffers g' = gridBuffers g \<and>
         descriptorBindings ctx' (descriptorSets g' 0, 0) = Some (gridBuffers g 0) \<and>
         descriptorBindings ctx' (descriptorSets g' 0, 1) = Some (gridBuffers g 1) \<and>
         descriptorBindings ctx' (descriptorSets g' 1, 0) = Some (gridBuffers g 1) \<and>
         descriptorBindings ctx' (descriptorSets g' 1, 1) = Some (gridBuffers g 0)"
  using ok distinct
  by (auto simp: createDescriptorSets_def Let_def split: if_splits)

lemma init_wiring:
  assumes ok: "init drv sizeX sizeY sizeZ s0 = Inr s"
    and distinct: "snd (rAllocateDescriptorSets drv 0) \<noteq> snd (rAllocateDescriptorSets drv 1)"
  shows "descriptorBindings (snd s) (descriptorSets (fst s) 0, 0) = Some (gridBuffers (fst s) 0) \<and>
         descriptorBindings (snd s) (descriptorSets (fst s) 0, 1) = Some (gridBuffers (fst s) 1) \<and>
         descriptorBindings (snd s) (descriptorSets (fst s) 1, 0) = Some (gridBuffers (fst s) 1) \<and>
         descriptorBindings (snd s) (descriptorSets (fst s) 1, 1) = Some (gridBuffers (fst s) 0)"
proof -
  from ok obtain g4 where
    cds: "createDescriptorSets drv (g4, snd s0) = Inr s"
    by (auto simp: init_def Let_def split: sum.splits)
  obtain g' ctx' where s: "s = (g', ctx')" by (cases s)
  from createDescriptorSets_wiring [OF cds [unfolded s] distinct] s
  show ?thesis by simp
qed

lemma call_step_wiring_frame:
  assumes "\<not> is_Init c" and "call_step c s = Inr s'"
  shows "descriptorSets (fst s') = descriptorSets (fst s) \<and>
         gridBuffers (fst s') = gridBuffers (fst s) \<and>
         descriptorBindings (snd s') = descriptorBindings (snd s)"
  using assms
  by (cases c)
     (auto simp: update_Inr swapBuffers_def endSingleTimeCommands_def setCell_def reset_def Let_def
           split: sum.splits if_splits)

lemma run_wiring_frame:
  assumes "list_all (\<lambda>c. \<not> is_Init c) calls" and "run calls s = Inr s'"
  shows "descriptorSets (fst s') = descriptorSets (fst s) \<and>
         gridBuffers (fst s') = gridBuffers (fst s) \<and>
         descriptorBindings (snd s') = descriptorBindings (snd s)"
  using assms
proof (induction calls arbitrary: s)
  case Nil
  then show ?case by simp
next
  case (Cons c calls)
  from Cons.prems obtain s1 where s1: "call_step c s = Inr s1" and rest: "run calls s1 = Inr s'"
    by (auto split: sum.splits)
  from Cons.prems have "\<not> is_Init c" and "list_all (\<lambda>c. \<not> is_Init c) calls" by simp_all
  with call_step_wiring_frame [OF _ s1] Cons.IH [OF _ rest] show ?case by simp
qed

text \<open>
  C6. After a successful \<^verbatim>\<open>init\<close> in which the driver handed out two different
  descriptor sets (Vulkan never gives one live set twice), and after any later calls of
  \<^verbatim>\<open>update\<close>, \<^verbatim>\<open>setCell\<close> and \<^verbatim>\<open>reset\<close>: set \<open>i\<close> has binding 0 on
  \<^verbatim>\<open>gridBuffers[i]\<close> and binding 1 on \<^verbatim>\<open>gridBuffers[1 - i]\<close>; the sets, the buffers and
  the bindings are those \<^verbatim>\<open>init\<close> left; the only thing a dispatch chooses is the set
  \<^verbatim>\<open>descriptorSets[currentBuffer]\<close> it binds.
\<close>

theorem descriptor_wiring_fixed:
  assumes ok: "init drv sizeX sizeY sizeZ s0 = Inr s"
    and distinct: "snd (rAllocateDescriptorSets drv 0) \<noteq> snd (rAllocateDescriptorSets drv 1)"
    and later: "list_all (\<lambda>c. \<not> is_Init c) calls"
    and ran: "run calls s = Inr s'"
  shows "(\<forall>i < 2.
            descriptorBindings (snd s') (descriptorSets (fst s') i, 0) = Some (gridBuffers (fst s') i) \<and>
            descriptorBindings (snd s') (descriptorSets (fst s') i, 1) = Some (gridBuffers (fst s') (1 - i))) \<and>
         descriptorSets (fst s') = descriptorSets (fst s) \<and>
         gridBuffers (fst s') = gridBuffers (fst s) \<and>
         descriptorBindings (snd s') = descriptorBindings (snd s) \<and>
         recordComputeCommands (fst s') [] ! 1 =
           CmdBindDescriptorSets (pipelineLayout (fst s')) (descriptorSets (fst s) (unat (currentBuffer (fst s'))))"
proof -
  note w = init_wiring [OF ok distinct]
  note f = run_wiring_frame [OF later ran]
  have "descriptorBindings (snd s') (descriptorSets (fst s') i, 0) = Some (gridBuffers (fst s') i) \<and>
        descriptorBindings (snd s') (descriptorSets (fst s') i, 1) = Some (gridBuffers (fst s') (1 - i))"
    if "i < 2" for i
  proof -
    from that consider "i = 0" | "i = 1" by arith
    then show ?thesis
    proof cases
      case 1
      with w f show ?thesis by simp
    next
      case 2
      with w f show ?thesis by simp
    qed
  qed
  moreover have "recordComputeCommands (fst s') [] ! 1 =
           CmdBindDescriptorSets (pipelineLayout (fst s')) (descriptorSets (fst s) (unat (currentBuffer (fst s'))))"
    using f by (simp add: recordComputeCommands_def)
  ultimately show ?thesis using f by simp
qed

theorem descriptor_wiring_fixed_witness:
  "\<exists>s s'. init driver_ok 4 4 4 (GameOfLife3D_ctor blank_memory, fresh_context) = Inr s \<and>
     snd (rAllocateDescriptorSets driver_ok 0) \<noteq> snd (rAllocateDescriptorSets driver_ok 1) \<and>
     list_all (\<lambda>c. \<not> is_Init c) [SetCell 1 1 0 1, Update step_ok, Reset] \<and>
     run [SetCell 1 1 0 1, Update step_ok, Reset] s = Inr s' \<and>
     (\<forall>i < 2.
        descriptorBindings (snd s') (descriptorSets (fst s') i, 0) = Some (gridBuffers (fst s') i) \<and>
        descriptorBindings (snd s') (descriptorSets (fst s') i, 1) = Some (gridBuffers (fst s') (1 - i))) \<and>
     descriptorSets (fst s') = descriptorSets (fst s) \<and>
     gridBuffers (fst s') = gridBuffers (fst s) \<and>
     descriptorBindings (snd s') = descriptorBindings (snd s)"
proof -
  obtain s where s: "init driver_ok 4 4 4 (GameOfLife3D_ctor blank_memory, fresh_context) = Inr s"
    using init_ok_444 by blast
  have d: "snd (rAllocateDescriptorSets driver_ok 0) \<noteq> snd (rAllocateDescriptorSets driver_ok 1)"
    by (simp add: driver_ok_def)
  have l: "list_all (\<lambda>c. \<not> is_Init c) [SetCell 1 1 0 1, Update step_ok, Reset]" by simp
  have gs: "gridSizeX (fst s) = 4" "gridSizeY (fst s) = 4" "gridSizeZ (fst s) = 4"
    "length (gridState (fst s)) = 64"
    using init_frame [OF s] by (simp_all add: resize_def GameOfLife3D_ctor_def)
  then obtain s' where r: "run [SetCell 1 1 0 1, Update step_ok, Reset] s = Inr s'"
    by (simp add: setCell_def Let_def update_Inr word_le_nat_alt)
  from descriptor_wiring_fixed [OF s d l r] s d l r show ?thesis by blast
qed

section \<open>GameOfLife3D: cells and their linear index\<close>

text \<open>
  As long as the number of cells fits 32 bits, the 32-bit index is the linear index
  \<open>x + y * sizeX + z * sizeX * sizeY\<close> and lies inside the mirror.
\<close>

lemma linear_index_bound:
  fixes a b c A B C :: nat
  assumes "a < A" "b < B" "c < C"
  shows "a + b * A + c * A * B < A * B * C"
proof -
  have "a + b * A < Suc b * A" using assms(1) by simp
  also have "\<dots> \<le> B * A" using assms(2) by (intro mult_le_mono1) simp
  finally have ab: "a + b * A < A * B" by (simp add: mult.commute)
  then have "a + b * A + c * (A * B) < Suc c * (A * B)" by simp
  also have "\<dots> \<le> C * (A * B)" using assms(3) by (intro mult_le_mono1) simp
  finally show ?thesis by (simp add: mult_ac)
qed

lemma linear_index_unat:
  fixes x y z X Y Z :: u32
  assumes fits: "unat X * unat Y * unat Z < 2 ^ 32"
    and "x < X" "y < Y" "z < Z"
  shows "unat (x + y * X + z * X * Y) = unat x + unat y * unat X + unat z * unat X * unat Y"
proof -
  let ?n = "unat x + unat y * unat X + unat z * unat X * unat Y"
  have "?n < unat X * unat Y * unat Z"
    using assms(2-4) by (intro linear_index_bound) (simp_all add: word_less_nat_alt)
  with fits have small: "?n < 2 ^ 32" by simp
  have "x + y * X + z * X * Y = of_nat ?n" by simp
  then have "unat (x + y * X + z * X * Y) = unat (of_nat ?n :: u32)" by simp
  also have "\<dots> = ?n" using small by (subst unat_of_nat) simp
  finally show ?thesis .
qed

lemma total_cells_unat:
  fixes X Y Z :: u32
  assumes "unat X * unat Y * unat Z < 2 ^ 32"
  shows "unat (X * Y * Z) = unat X * unat Y * unat Z"
proof -
  have "X * Y * Z = of_nat (unat X * unat Y * unat Z)" by simp
  then have "unat (X * Y * Z) = unat (of_nat (unat X * unat Y * unat Z) :: u32)" by simp
  also have "\<dots> = unat X * unat Y * unat Z" using assms by (subst unat_of_nat) simp
  finally show ?thesis .
qed

lemma setCell_in_range:
  assumes fits: "unat (gridSizeX g) * unat (gridSizeY g) * unat (gridSizeZ g) < 2 ^ 32"
    and len: "length (gridState g) = unat (gridSizeX g * gridSizeY g * gridSizeZ g)"
    and inb: "x < gridSizeX g" "y < gridSizeY g" "z < gridSizeZ g"
  shows "\<exists>g'. setCell x y z state g = Inr g' \<and>
           gridState g' = (gridState g)
             [unat x + unat y * unat (gridSizeX g) + unat z * unat (gridSizeX g) * unat (gridSizeY g) := state] \<and>
           unat x + unat y * unat (gridSizeX g) + unat z * unat (gridSizeX g) * unat (gridSizeY g)
             < length (gridState g) \<and>
           g' = g\<lparr>gridState := gridState g'\<rparr>"
proof -
  let ?n = "unat x + unat y * unat (gridSizeX g) + unat z * unat (gridSizeX g) * unat (gridSizeY g)"
  have idx: "unat (x + y * gridSizeX g + z * gridSizeX g * gridSizeY g) = ?n"
    using fits inb by (rule linear_index_unat)
  have "?n < unat (gridSizeX g) * unat (gridSizeY g) * unat (gridSizeZ g)"
    using inb by (intro linear_index_bound) (simp_all add: word_less_nat_alt)
  then have lt: "?n < length (gridState g)"
    using len total_cells_unat [OF fits] by simp
  from inb have "\<not> (x \<ge> gridSizeX g \<or> y \<ge> gridSizeY g \<or> z \<ge> gridSizeZ g)"
    by (simp add: not_le)
  then show ?thesis
    using idx lt by (simp add: setCell_def Let_def)
qed

lemma setCell_out_of_bounds:
  "x \<ge> gridSizeX g \<or> y \<ge> gridSizeY g \<or> z \<ge> gridSizeZ g \<Longrightarrow> setCell x y z state g = Inr g"
  by (simp add: setCell_def)

lemma length_resize: "length (resize xs n v) = n"
  by (simp add: resize_def)

lemma init_grid_length:
  assumes "init drv sizeX sizeY sizeZ s0 = Inr s"
  shows "length (gridState (fst s)) = unat (sizeX * sizeY * sizeZ)"
  using init_frame(5) [OF assms] by (simp add: length_resize)

text \<open>
  So in a grid whose cell count fits 32 bits, a write inside the grid succeeds, puts the
  state at the linear index and changes nothing else of the engine; a write outside the
  grid changes nothing in any grid.
\<close>

lemma setCell_after_init:
  assumes ok: "init drv sizeX sizeY sizeZ s0 = Inr s"
    and fits: "unat sizeX * unat sizeY * unat sizeZ < 2 ^ 32"
    and inb: "x < sizeX" "y < sizeY" "z < sizeZ"
  shows "\<exists>g'. setCell x y z state (fst s) = Inr g' \<and>
           unat x + unat y * unat sizeX + unat z * unat sizeX * unat sizeY < length (gridState g') \<and>
           gridState g' ! (unat x + unat y * unat sizeX + unat z * unat sizeX * unat sizeY) = state \<and>
           (\<forall>j. j \<noteq> unat x + unat y * unat sizeX + unat z * unat sizeX * unat sizeY \<longrightarrow>
                gridState g' ! j = gridState (fst s) ! j) \<and>
           length (gridState g') = length (gridState (fst s)) \<and>
           g' = (fst s)\<lparr>gridState := gridState g'\<rparr>"
proof -
  note dims = init_frame(2-4) [OF ok]
  from setCell_in_range [of "fst s" x y z state] fits inb init_grid_length [OF ok] dims
  obtain g' where "setCell x y z state (fst s) = Inr g'"
    and "gridState g' = (gridState (fst s))
           [unat x + unat y * unat sizeX + unat z * unat sizeX * unat sizeY := state]"
    and "unat x + unat y * unat sizeX + unat z * unat sizeX * unat sizeY < length (gridState (fst s))"
    and "g' = (fst s)\<lparr>gridState := gridState g'\<rparr>"
    by auto
  then show ?thesis by (intro exI [of _ g']) simp
qed

text \<open>
  C3 fails on the code when the cell count overflows. \<^verbatim>\<open>init(65536, 65537, 1)\<close>: the
  product \<open>2^32 + 65536\<close> wraps to 65536 cells. The coordinate \<open>(0, 1, 0)\<close> is inside the
  grid, its index is 65536, and the write \<^verbatim>\<open>gridState[65536] = 1\<close> is past the end of the
  vector.
\<close>

theorem overflow_out_of_range:
  "(0 :: u32) < 65536 \<and> (1 :: u32) < 65537 \<and> (0 :: u32) < 1 \<and>
   map_sum id (\<lambda>s. length (gridState (fst s)))
     (run [Init driver_ok 65536 65537 1]
        (GameOfLife3D_ctor blank_memory, fresh_context)) = Inr 65536 \<and>
   run [Init driver_ok 65536 65537 1, SetCell 0 1 0 1]
     (GameOfLife3D_ctor blank_memory, fresh_context) = Inl (vector_out_of_range 65536 65536)"
  by (simp add: init_def driver_ok_def createComputePipeline_def
      createBuffers_def createDescriptorSets_def Let_def setCell_def resize_def
      GameOfLife3D_ctor_def blank_memory_def word_le_nat_alt)

text \<open>
  C9 fails on the code for the same reason. In the same grid the coordinate
  \<open>(0, 65536, 0)\<close> is inside the grid and its linear index is \<open>2^32\<close>; the 32-bit index
  wraps to 0, and the write changes cell 0, which belongs to \<open>(0, 0, 0)\<close>.
\<close>

theorem overflow_wrong_cell:
  "(0 :: u32) < 65536 \<and> (65536 :: u32) < 65537 \<and> (0 :: u32) < 1 \<and>
   unat (0 :: u32) + unat (65536 :: u32) * unat (65536 :: u32)
     + unat (0 :: u32) * unat (65536 :: u32) * unat (65537 :: u32) = 4294967296 \<and>
   map_sum id (\<lambda>s. (length (gridState (fst s)), gridState (fst s) ! 0))
     (run [Init driver_ok 65536 65537 1]
        (GameOfLife3D_ctor blank_memory, fresh_context)) = Inr (65536, 0) \<and>
   map_sum id (\<lambda>s. (length (gridState (fst s)), gridState (fst s) ! 0))
     (run [Init driver_ok 65536 65537 1, SetCell 0 65536 0 1]
        (GameOfLife3D_ctor blank_memory, fresh_context)) = Inr (65536, 1)"
  by (simp add: init_def driver_ok_def createComputePipeline_def
      createBuffers_def createDescriptorSets_def Let_def setCell_def resize_def
      GameOfLife3D_ctor_def blank_memory_def)

section \<open>GameOfLife3D: dispatch group counts\<close>

text \<open>Up to \<open>2^32 - 8\<close> the count is the ceiling of \<open>d / 8\<close>: 13 for 100, 8 for 64.\<close>

lemma group_count_unat:
  fixes d :: u32
  assumes "unat d \<le> 2 ^ 32 - 8"
  shows "unat ((d + 7) div 8) = (unat d + 7) div 8"
proof -
  have "unat (d + 7) = unat d + 7"
    using assms by (simp add: unat_add_lem [THEN iffD1])
  then show ?thesis by (simp add: unat_div)
qed

lemma group_count_ceiling:
  fixes d :: u32
  assumes "unat d \<le> 2 ^ 32 - 8"
  shows "unat ((d + 7) div 8) = nat \<lceil>real (unat d) / 8\<rceil>"
proof -
  have "(n + 7) div 8 = nat \<lceil>real n / 8\<rceil>" for n :: nat
    by linarith
  with group_count_unat [OF assms] show ?thesis by simp
qed

lemma group_count_examples:
  "recordComputeCommands (g\<lparr>gridSizeX := 100, gridSizeY := 64, gridSizeZ := 8\<rparr>) [] ! 3 =
     CmdDispatch 13 8 1"
  by (simp add: recordComputeCommands_def)

text \<open>
  C8 fails on the code above \<open>2^32 - 8\<close>: for \<^verbatim>\<open>gridSizeX = 4294967295\<close> the sum
  \<^verbatim>\<open>gridSizeX + 7\<close> wraps to 6 and the step dispatches 0 groups along x, where the
  ceiling of \<open>4294967295 / 8\<close> is 536870912.
\<close>

theorem overflow_group_count:
  "map_sum id (\<lambda>s. last (subCommands (last (submissions (snd s)))))
     (run [Init driver_ok 0xFFFFFFFF 1 1, Update step_ok]
        (GameOfLife3D_ctor blank_memory, fresh_context)) = Inr (CmdDispatch 0 1 1)"
  by (simp add: init_def driver_ok_def createComputePipeline_def
      createBuffers_def createDescriptorSets_def Let_def resize_def update_Inr
      recordComputeCommands_def endSingleTimeCommands_def fresh_context_def
      GameOfLife3D_ctor_def blank_memory_def)

section \<open>ComputeShaderDebugger: the dispatch history\<close>

lemma ctor_state:
  "m_dispatchHistory (ComputeShaderDebugger_ctor drv raw) = []"
  "m_enabled (ComputeShaderDebugger_ctor drv raw)"
  "\<not> m_inDispatch (ComputeShaderDebugger_ctor drv raw)"
  "m_trackedBuffers (ComputeShaderDebugger_ctor drv raw) = []"
  "m_trackedImages (ComputeShaderDebugger_ctor drv raw) = []"
  "m_warnings (ComputeShaderDebugger_ctor drv raw) = []"
  by (simp_all add: ComputeShaderDebugger_ctor_def createTimestampQueryPool_def initDebugExtensions_def)

lemma ctor_ok_errors: "m_errors (ComputeShaderDebugger_ctor debug_driver_ok raw) = []"
  by (simp add: ComputeShaderDebugger_ctor_def createTimestampQueryPool_def initDebugExtensions_def
      debug_driver_ok_def)

lemma endDispatch_length:
  "length (m_dispatchHistory d) \<le> 1000 \<Longrightarrow> length (m_dispatchHistory (endDispatch now d)) \<le> 1000"
  by (auto simp: endDispatch_def Let_def)

lemma debug_step_history:
  "length (m_dispatchHistory d) \<le> 1000 \<Longrightarrow> length (m_dispatchHistory (debug_step c d)) \<le> 1000"
proof (cases c)
  case (EndDispatch now)
  assume "length (m_dispatchHistory d) \<le> 1000"
  with EndDispatch show ?thesis by (simp add: endDispatch_length)
qed (simp_all add: setEnabled_def validateShaderModule_def validateComputePipeline_def
      trackBuffer_def trackImage_def untrackBuffer_def untrackImage_def beginDispatch_def
      insertTimestamp_def validateMemoryBarrier_def validateBufferMemoryBarrier_def
      validateImageMemoryBarrier_def checkSynchronizationHazards_def clearMessages_def Let_def)

lemma debug_run_history:
  "length (m_dispatchHistory d) \<le> 1000 \<Longrightarrow> length (m_dispatchHistory (debug_run cs d)) \<le> 1000"
  by (induction cs arbitrary: d) (simp_all add: debug_step_history)

lemma endDispatch_full:
  assumes "m_enabled d" "m_inDispatch d" "length (m_dispatchHistory d) = 1000"
  shows "m_dispatchHistory (endDispatch now d) =
           tl (m_dispatchHistory d) @ [(m_currentDispatch d)\<lparr>endTime := now\<rparr>]"
proof -
  from assms(3) have "m_dispatchHistory d \<noteq> []" by auto
  with assms show ?thesis by (simp add: endDispatch_def Let_def)
qed

lemma debug_run_append: "debug_run (cs @ cs') d = debug_run cs' (debug_run cs d)"
  by (induction cs arbitrary: d) simp_all

lemma dispatch_pair:
  assumes "m_enabled d" "length (m_dispatchHistory d) < 1000"
  shows "m_enabled (debug_run [BeginDispatch name 1 1 1 0, EndDispatch 1000] d) \<and>
         m_dispatchHistory (debug_run [BeginDispatch name 1 1 1 0, EndDispatch 1000] d) =
           m_dispatchHistory d @ [dispatch_record name]"
  using assms by (simp add: beginDispatch_def endDispatch_def Let_def dispatch_record_def)

lemma dispatches_history:
  "m_enabled d \<Longrightarrow> length (m_dispatchHistory d) + n \<le> 1000 \<Longrightarrow>
   m_enabled (debug_run (dispatches n name) d) \<and>
   m_dispatchHistory (debug_run (dispatches n name) d) =
     m_dispatchHistory d @ replicate n (dispatch_record name)"
proof (induction n arbitrary: d)
  case 0
  then show ?case by (simp add: dispatches_def)
next
  case (Suc n)
  let ?d1 = "debug_run [BeginDispatch name 1 1 1 0, EndDispatch 1000] d"
  from Suc.prems have "length (m_dispatchHistory d) < 1000" by simp
  from dispatch_pair [OF Suc.prems(1) this, of name]
  have e: "m_enabled ?d1" and h: "m_dispatchHistory ?d1 = m_dispatchHistory d @ [dispatch_record name]"
    by simp_all
  from h Suc.prems have "length (m_dispatchHistory ?d1) + n \<le> 1000" by simp
  from Suc.IH [OF e this] h
  have "m_enabled (debug_run (dispatches n name) ?d1) \<and>
        m_dispatchHistory (debug_run (dispatches n name) ?d1) =
          m_dispatchHistory d @ dispatch_record name # replicate n (dispatch_record name)"
    by simp
  moreover have "debug_run (dispatches (Suc n) name) d = debug_run (dispatches n name) ?d1"
    by (simp add: dispatches_def)
  ultimately show ?case by simp
qed

lemma begin_end_record:
  "(r\<lparr>shaderName := name, groupCountX := 1, groupCountY := 1, groupCountZ := 1,
      startTime := 0, buffers := [], images := []\<rparr>)\<lparr>endTime := 1000\<rparr> = dispatch_record name"
  by (cases r) (simp add: dispatch_record_def)

lemma full_debugger_state:
  "m_enabled full_debugger \<and> m_inDispatch full_debugger \<and>
   m_dispatchHistory full_debugger = dispatch_record ''first'' # replicate 999 (dispatch_record ''life'') \<and>
   (m_currentDispatch full_debugger)\<lparr>endTime := 1000\<rparr> = dispatch_record ''last''"
proof -
  let ?d0 = "ComputeShaderDebugger_ctor debug_driver_ok blank_dispatch"
  let ?d1 = "debug_run (dispatches 1 ''first'') ?d0"
  let ?d2 = "debug_run (dispatches 999 ''life'') ?d1"
  let ?d3 = "beginDispatch ''last'' 1 1 1 0 ?d2"
  have 1: "m_enabled ?d1 \<and> m_dispatchHistory ?d1 = [dispatch_record ''first'']"
    using dispatches_history [of ?d0 1 "''first''"] by (simp add: ctor_state)
  then have 2: "m_enabled ?d2 \<and>
      m_dispatchHistory ?d2 = dispatch_record ''first'' # replicate 999 (dispatch_record ''life'')"
    using dispatches_history [of ?d1 999 "''life''"] by simp
  then have 3: "m_enabled ?d3 \<and> m_inDispatch ?d3 \<and>
      m_dispatchHistory ?d3 = dispatch_record ''first'' # replicate 999 (dispatch_record ''life'') \<and>
      (m_currentDispatch ?d3)\<lparr>endTime := 1000\<rparr> = dispatch_record ''last''"
    by (simp add: beginDispatch_def begin_end_record)
  have "full_debugger = ?d3"
    by (simp add: full_debugger_def debug_run_append)
  with 3 show ?thesis by (simp only:)
qed

text \<open>
  C4. From the constructor on, after any calls of the debugger's interface
  (\<^verbatim>\<open>beginDispatch\<close> and \<^verbatim>\<open>endDispatch\<close> among them) the history holds at most 1000
  records. When \<^verbatim>\<open>endDispatch\<close> closes a dispatch on a history of 1000 records, the new
  history is the old one without its head, followed by the closed record: the oldest
  record goes, the others keep their order. (The example after it reaches a full history
  by a run whose oldest record is \<open>first\<close>; closing \<open>last\<close> evicts exactly that one.)
\<close>

theorem dispatch_history_bounded:
  "length (m_dispatchHistory (debug_run calls (ComputeShaderDebugger_ctor drv raw))) \<le> 1000 \<and>
   (m_enabled d \<and> m_inDispatch d \<and> length (m_dispatchHistory d) = 1000 \<longrightarrow>
      m_dispatchHistory (endDispatch now d) =
        tl (m_dispatchHistory d) @ [(m_currentDispatch d)\<lparr>endTime := now\<rparr>])"
proof
  show "length (m_dispatchHistory (debug_run calls (ComputeShaderDebugger_ctor drv raw))) \<le> 1000"
    by (rule debug_run_history) (simp add: ctor_state)
  show "m_enabled d \<and> m_inDispatch d \<and> length (m_dispatchHistory d) = 1000 \<longrightarrow>
      m_dispatchHistory (endDispatch now d) =
        tl (m_dispatchHistory d) @ [(m_currentDispatch d)\<lparr>endTime := now\<rparr>]"
    by (simp add: endDispatch_full)
qed

theorem dispatch_history_bounded_witness:
  "length (m_dispatchHistory (debug_run (dispatches 3 ''life'')
      (ComputeShaderDebugger_ctor debug_driver_ok blank_dispatch))) \<le> 1000 \<and>
   m_enabled full_debugger \<and> m_inDispatch full_debugger \<and>
   length (m_dispatchHistory full_debugger) = 1000 \<and>
   hd (m_dispatchHistory full_debugger) = dispatch_record ''first'' \<and>
   m_dispatchHistory (endDispatch 1000 full_debugger) =
     replicate 999 (dispatch_record ''life'') @ [dispatch_record ''last'']"
  using dispatch_history_bounded [of "dispatches 3 ''life''" debug_driver_ok blank_dispatch
      full_debugger 1000] full_debugger_state
  by simp

section \<open>ComputeShaderDebugger: barrier validation\<close>

text \<open>
  C7. With the debugger enabled: a buffer barrier on the null handle is rejected and one
  error is appended, nothing else changes (no warning, whatever its size); a buffer
  barrier on a real handle with size 0 is accepted and one warning is appended, nothing
  else changes; a memory barrier with both access masks 0 is accepted and one warning is
  appended, nothing else changes.
\<close>

theorem barrier_validation:
  assumes "m_enabled d"
  shows "(buffer barrier = VK_NULL_HANDLE \<longrightarrow>
            validateBufferMemoryBarrier barrier d =
              (False, d\<lparr>m_errors := m_errors d @ [''Buffer memory barrier has VK_NULL_HANDLE buffer'']\<rparr>)) \<and>
         (buffer barrier \<noteq> VK_NULL_HANDLE \<and> size_barrier barrier = 0 \<longrightarrow>
            validateBufferMemoryBarrier barrier d =
              (True, d\<lparr>m_warnings := m_warnings d @ [''Buffer memory barrier has size of 0'']\<rparr>)) \<and>
         (srcAccessMask mb = 0 \<and> dstAccessMask mb = 0 \<longrightarrow>
            validateMemoryBarrier mb d =
              (True, d\<lparr>m_warnings := m_warnings d @
                 [''Memory barrier has both srcAccessMask and dstAccessMask set to 0'']\<rparr>))"
  using assms
  by (simp add: validateBufferMemoryBarrier_def validateMemoryBarrier_def)

theorem barrier_validation_witness:
  "m_enabled (ComputeShaderDebugger_ctor debug_driver_ok blank_dispatch) \<and>
   buffer null_buffer_barrier = VK_NULL_HANDLE \<and>
   fst (validateBufferMemoryBarrier null_buffer_barrier
          (ComputeShaderDebugger_ctor debug_driver_ok blank_dispatch)) = False \<and>
   m_errors (snd (validateBufferMemoryBarrier null_buffer_barrier
          (ComputeShaderDebugger_ctor debug_driver_ok blank_dispatch))) =
     [''Buffer memory barrier has VK_NULL_HANDLE buffer''] \<and>
   m_warnings (snd (validateBufferMemoryBarrier null_buffer_barrier
          (ComputeShaderDebugger_ctor debug_driver_ok blank_dispatch))) = [] \<and>
   buffer empty_buffer_barrier \<noteq> VK_NULL_HANDLE \<and> size_barrier empty_buffer_barrier = 0 \<and>
   fst (validateBufferMemoryBarrier empty_buffer_barrier
          (ComputeShaderDebugger_ctor debug_driver_ok blank_dispatch)) = True \<and>
   m_warnings (snd (validateBufferMemoryBarrier empty_buffer_barrier
          (ComputeShaderDebugger_ctor debug_driver_ok blank_dispatch))) =
     [''Buffer memory barrier has size of 0''] \<and>
   m_errors (snd (validateBufferMemoryBarrier empty_buffer_barrier
          (ComputeShaderDebugger_ctor debug_driver_ok blank_dispatch))) = [] \<and>
   srcAccessMask empty_memory_barrier = 0 \<and> dstAccessMask empty_memory_barrier = 0 \<and>
   fst (validateMemoryBarrier empty_memory_barrier
          (ComputeShaderDebugger_ctor debug_driver_ok blank_dispatch)) = True \<and>
   m_warnings (snd (validateMemoryBarrier empty_memory_barrier
          (ComputeShaderDebugger_ctor debug_driver_ok blank_dispatch))) =
     [''Memory barrier has both srcAccessMask and dstAccessMask set to 0''] \<and>
   m_errors (snd (validateMemoryBarrier empty_memory_barrier
          (ComputeShaderDebugger_ctor debug_driver_ok blank_dispatch))) = []"
proof -
  let ?d = "ComputeShaderDebugger_ctor debug_driver_ok blank_dispatch"
  have e: "m_enabled ?d" by (simp add: ctor_state)
  have n: "buffer null_buffer_barrier = VK_NULL_HANDLE"
    by (simp add: null_buffer_barrier_def)
  have z: "buffer empty_buffer_barrier \<noteq> VK_NULL_HANDLE \<and> size_barrier empty_buffer_barrier = 0"
    by (simp add: empty_buffer_barrier_def VK_NULL_HANDLE_def)
  have m: "srcAccessMask empty_memory_barrier = 0 \<and> dstAccessMask empty_memory_barrier = 0"
    by (simp add: empty_memory_barrier_def)
  from barrier_validation [OF e, of null_buffer_barrier empty_memory_barrier]
    barrier_validation [OF e, of empty_buffer_barrier empty_memory_barrier]
    e n z m
  show ?thesis by (simp add: ctor_state ctor_ok_errors)
qed

section \<open>ComputeShaderDebugger: the disabled debugger\<close>

text \<open>
  Every operation that starts with \<^verbatim>\<open>if (!m_enabled) return\<close> leaves a disabled
  debugger as it is and, when it has a result, returns \<open>True\<close>.
\<close>

lemma disabled_guarded_operations:
  assumes "\<not> m_enabled d"
  shows "trackBuffer buf sz name now d = d"
    and "trackImage img ext fmt name now d = d"
    and "beginDispatch name gx gy gz now d = d"
    and "endDispatch now d = d"
    and "insertTimestamp commandBuffer name d = (commandBuffer, d)"
    and "beginDebugLabel commandBuffer name d = (commandBuffer, d)"
    and "endDebugLabel commandBuffer d = (commandBuffer, d)"
    and "insertDebugLabel commandBuffer name d = (commandBuffer, d)"
    and "validateShaderModule h name d = (True, d)"
    and "validateComputePipeline h name d = (True, d)"
    and "validateMemoryBarrier mb d = (True, d)"
    and "validateBufferMemoryBarrier bb d = (True, d)"
    and "validateImageMemoryBarrier ib d = (True, d)"
    and "checkSynchronizationHazards srcStage dstStage srcAccess dstAccess d = d"
  using assms
  by (simp_all add: trackBuffer_def trackImage_def beginDispatch_def endDispatch_def
      insertTimestamp_def beginDebugLabel_def endDebugLabel_def insertDebugLabel_def
      validateShaderModule_def validateComputePipeline_def validateMemoryBarrier_def
      validateBufferMemoryBarrier_def validateImageMemoryBarrier_def
      checkSynchronizationHazards_def)

text \<open>
  C1 fails on the code for \<^verbatim>\<open>untrackBuffer\<close> and \<^verbatim>\<open>untrackImage\<close>, the two operations
  without the test of \<^verbatim>\<open>m_enabled\<close>: track buffer 7, disable the debugger, untrack
  buffer 7. The debugger is disabled, the buffer was in the table, and the call removes
  it.
\<close>

theorem untrack_while_disabled:
  "m_enabled (debug_run [TrackBuffer 7 1024 ''grid'' 0, SetEnabled False]
      (ComputeShaderDebugger_ctor debug_driver_ok blank_dispatch)) = False \<and>
   map fst (m_trackedBuffers (debug_run [TrackBuffer 7 1024 ''grid'' 0, SetEnabled False]
      (ComputeShaderDebugger_ctor debug_driver_ok blank_dispatch))) = [7] \<and>
   map fst (m_trackedBuffers (debug_run [TrackBuffer 7 1024 ''grid'' 0, SetEnabled False, UntrackBuffer 7]
      (ComputeShaderDebugger_ctor debug_driver_ok blank_dispatch))) = []"
  by (simp add: trackBuffer_def setEnabled_def untrackBuffer_def ctor_state AList.delete_eq)

section \<open>ComputeShaderDebugger: statistics\<close>

lemma fold_add_buffer_bytes:
  "totalDispatches (fold add_buffer_bytes xs st) = totalDispatches st \<and>
   averageDispatchTimeMs (fold add_buffer_bytes xs st) = averageDispatchTimeMs st \<and>
   dispatchCounts (fold add_buffer_bytes xs st) = dispatchCounts st \<and>
   shaderTimings (fold add_buffer_bytes xs st) = shaderTimings st"
  by (induction xs arbitrary: st) (simp_all add: add_buffer_bytes_def)

lemma fold_add_image_pixels:
  "totalDispatches (fold add_image_pixels xs st) = totalDispatches st \<and>
   averageDispatchTimeMs (fold add_image_pixels xs st) = averageDispatchTimeMs st \<and>
   dispatchCounts (fold add_image_pixels xs st) = dispatchCounts st \<and>
   shaderTimings (fold add_image_pixels xs st) = shaderTimings st"
  by (induction xs arbitrary: st) (simp_all add: add_image_pixels_def)

lemma duration_ms_finite: "\<exists>r. duration_ms dispatch = Finite r"
proof -
  have "double_div (Finite a) (Finite 1000) = Finite (a / 1000)" for a
    by simp
  then show ?thesis
    unfolding duration_ms_def Let_def by blast
qed

lemma fold_account_dispatch_finite:
  "\<exists>r. fst acc = Finite r \<Longrightarrow> \<exists>r. fst (fold account_dispatch hist acc) = Finite r"
proof (induction hist arbitrary: acc)
  case Nil
  then show ?case by simp
next
  case (Cons dispatch hist)
  from Cons.prems duration_ms_finite [of dispatch]
  have "\<exists>r. fst (account_dispatch dispatch acc) = Finite r"
    by (auto simp: account_dispatch_def Let_def)
  from Cons.IH [OF this] show ?case by simp
qed

text \<open>
  C10. \<^verbatim>\<open>getStatistics\<close> never divides by zero: its average is never the non-finite
  value, in any state. With an empty history it reports 0 dispatches, the average 0 and
  two empty per-shader maps, whatever the tracked-resource tables hold.
\<close>

theorem statistics_no_division_by_zero:
  "(\<exists>r. averageDispatchTimeMs (getStatistics d) = Finite r) \<and>
   (m_dispatchHistory d = [] \<longrightarrow>
      totalDispatches (getStatistics d) = 0 \<and>
      averageDispatchTimeMs (getStatistics d) = Finite 0 \<and>
      dispatchCounts (getStatistics d) = [] \<and>
      shaderTimings (getStatistics d) = [])"
proof
  show "\<exists>r. averageDispatchTimeMs (getStatistics d) = Finite r"
  proof (cases "m_dispatchHistory d = []")
    case True
    then show ?thesis
      by (simp add: getStatistics_def Let_def fold_add_buffer_bytes fold_add_image_pixels)
  next
    case False
    then have "real (length (m_dispatchHistory d)) \<noteq> 0" by simp
    moreover obtain r where "fst (fold account_dispatch (m_dispatchHistory d)
        (Finite 0, fold add_image_pixels (m_trackedImages d)
           (fold add_buffer_bytes (m_trackedBuffers d)
              \<lparr>totalDispatches = of_nat (length (m_dispatchHistory d)), totalBufferBytes = 0,
               totalImagePixels = 0, averageDispatchTimeMs = Finite 0,
               dispatchCounts = [], shaderTimings = []\<rparr>))) = Finite r"
      using fold_account_dispatch_finite [of "(Finite 0, _)"] by fastforce
    ultimately show ?thesis using False
      by (simp add: getStatistics_def Let_def)
  qed
  show "m_dispatchHistory d = [] \<longrightarrow>
      totalDispatches (getStatistics d) = 0 \<and>
      averageDispatchTimeMs (getStatistics d) = Finite 0 \<and>
      dispatchCounts (getStatistics d) = [] \<and>
      shaderTimings (getStatistics d) = []"
    by (simp add: getStatistics_def Let_def fold_add_buffer_bytes fold_add_image_pixels)
qed

theorem statistics_no_division_by_zero_witness:
  "m_dispatchHistory tracking_debugger = [] \<and>
   map fst (m_trackedBuffers tracking_debugger) = [7, 8] \<and>
   totalBufferBytes (getStatistics tracking_debugger) = 3072 \<and>
   totalDispatches (getStatistics tracking_debugger) = 0 \<and>
   averageDispatchTimeMs (getStatistics tracking_debugger) = Finite 0 \<and>
   dispatchCounts (getStatistics tracking_debugger) = [] \<and>
   shaderTimings (getStatistics tracking_debugger) = []"
proof -
  have h: "m_dispatchHistory tracking_debugger = []"
    by (simp add: tracking_debugger_def trackBuffer_def ctor_state)
  have t: "map fst (m_trackedBuffers tracking_debugger) = [7, 8] \<and>
           totalBufferBytes (getStatistics tracking_debugger) = 3072"
    by (simp add: tracking_debugger_def trackBuffer_def ctor_state getStatistics_def Let_def
        add_buffer_bytes_def)
  from statistics_no_division_by_zero [of tracking_debugger] h t
  show ?thesis by simp
qed

end
